theory Spec2Isabelle
  imports Main "HOL-Library.Word"
begin

section \<open>Python values, exceptions and the Kafka client\<close>

text \<open>
  The module \<^verbatim>\<open>message_broker.py\<close> is a thin layer over the \<^verbatim>\<open>confluent_kafka\<close> client.
  Everything it does is a call into that client, a mutation of the adapter object or a
  raise, so the model threads the adapter explicitly, returns exceptions as values and
  takes the behaviour of the client (which calls raise, what the polls deliver) from an
  environment record.
\<close>

type_synonym byte = "8 word"

text \<open>A Python \<^verbatim>\<open>str\<close> that is going to be encoded: its code points.\<close>

type_synonym pystr = "nat list"

text \<open>
  The dynamically typed values that travel through \<^verbatim>\<open>**client_config\<close> and
  \<^verbatim>\<open>self.config\<close>: \<^verbatim>\<open>None\<close>, a string, a bool, a list of strings.
\<close>

datatype pyval = PNone | PStr string | PBool bool | PList "string list"

text \<open>Truth value testing, as \<^verbatim>\<open>if x:\<close> does it.\<close>

fun truthy :: "pyval \<Rightarrow> bool" where
  "truthy PNone = False"
| "truthy (PStr s) = (s \<noteq> [])"
| "truthy (PBool b) = b"
| "truthy (PList xs) = (xs \<noteq> [])"

text \<open>
  A \<^verbatim>\<open>KafkaError\<close> object, as \<^verbatim>\<open>msg.error()\<close> returns it: the name of its code, the
  value of its code and its text.
\<close>

datatype kafka_error = KafkaError string int string

text \<open>
  \<^verbatim>\<open>MessageBusError\<close> is imported from \<^verbatim>\<open>cortx.utils.message_bus.error\<close>; the module
  constructs it with one argument, a formatted string or the \<^verbatim>\<open>KafkaError\<close> of a message.
  It is taken to print as an exception with one argument does, as that argument.
\<close>

datatype mbe_arg = Text string | Err kafka_error

text \<open>
  The exceptions that can reach this module. \<open>ClientError\<close> stands for any subclass of
  \<^verbatim>\<open>Exception\<close> raised inside the Kafka client or the configuration store
  (\<^verbatim>\<open>KafkaException\<close>, \<^verbatim>\<open>BufferError\<close>, ...), with its \<^verbatim>\<open>str()\<close>.
  \<open>UnicodeEncodeError c i j\<close> is raised by the codec for the positions from \<open>i\<close> up to
  but not including \<open>j\<close> of the string, with \<open>c\<close> the code point at \<open>i\<close>.
\<close>

datatype exn =
    MessageBusError mbe_arg
  | KeyError string
  | AssertionError
  | AttributeError string
  | TypeError string
  | UnicodeEncodeError nat nat nat
  | ClientError string
  | KeyboardInterrupt

text \<open>\<^verbatim>\<open>except Exception\<close> catches everything but \<^verbatim>\<open>KeyboardInterrupt\<close>, a \<^verbatim>\<open>BaseException\<close>.\<close>

fun is_Exception :: "exn \<Rightarrow> bool" where
  "is_Exception KeyboardInterrupt = False"
| "is_Exception _ = True"

fun is_MessageBusError :: "exn \<Rightarrow> bool" where
  "is_MessageBusError (MessageBusError _) = True"
| "is_MessageBusError _ = False"

subsection \<open>Formatting\<close>

definition digit_char :: "nat \<Rightarrow> char" where
  "digit_char d = ''0123456789abcdef'' ! (d mod 16)"

function dec :: "nat \<Rightarrow> string" where
  "dec n = (if n < 10 then [digit_char n] else dec (n div 10) @ [digit_char (n mod 10)])"
  by pat_completeness auto
termination
  by (relation "measure id") auto

declare dec.simps [simp del]

text \<open>\<^verbatim>\<open>'%d' % i\<close> and \<^verbatim>\<open>str(i)\<close> for an int.\<close>

definition str_int :: "int \<Rightarrow> string" where
  "str_int i = (if i < 0 then CHR ''-'' # dec (nat (- i)) else dec (nat i))"

definition hex2 :: "nat \<Rightarrow> string" where
  "hex2 n = [digit_char (n div 16), digit_char n]"

definition hex4 :: "nat \<Rightarrow> string" where
  "hex4 n = hex2 (n div 256) @ hex2 n"

text \<open>\<^verbatim>\<open>str(e)\<close>, which the f-strings of the two \<^verbatim>\<open>except\<close> clauses insert.\<close>

definition sq :: string where
  "sq = [CHR 0x27]"

definition dq :: string where
  "dq = [CHR 0x22]"

text \<open>\<^verbatim>\<open>str()\<close> of a \<^verbatim>\<open>KafkaError\<close>: \<^verbatim>\<open>KafkaError{code=NAME,val=N,str="text"}\<close>.\<close>

fun str_kafka_error :: "kafka_error \<Rightarrow> string" where
  "str_kafka_error (KafkaError name val txt) =
     ''KafkaError{code='' @ name @ '',val='' @ str_int val @ '',str='' @ dq @ txt @ dq @ ''}''"

fun str_exn :: "exn \<Rightarrow> string" where
  "str_exn (MessageBusError (Text s)) = s"
| "str_exn (MessageBusError (Err e)) = str_kafka_error e"
| "str_exn (KeyError k) = sq @ k @ sq"
| "str_exn AssertionError = []"
| "str_exn (AttributeError s) = s"
| "str_exn (TypeError s) = s"
| "str_exn (UnicodeEncodeError c i j) =
     sq @ ''utf-8'' @ sq @ '' codec can'' @ sq @ ''t encode ''
       @ (if j = Suc i
          then ''character '' @ sq @ [CHR 0x5C] @ ''u'' @ hex4 c @ sq @ '' in position '' @ dec i
          else ''characters in position '' @ dec i @ ''-'' @ dec (j - 1))
       @ '': surrogates not allowed''"
| "str_exn (ClientError s) = s"
| "str_exn KeyboardInterrupt = []"

subsection \<open>The handles of the Kafka client\<close>

text \<open>
  A configuration dict of the client (\<^verbatim>\<open>self.config\<close>), keyed by the client's setting names.
\<close>

type_synonym kconfig = "string \<rightharpoonup> pyval"

text \<open>\<^verbatim>\<open>AdminClient(conf)\<close>: the handle keeps the settings it was created with.\<close>

record admin_client =
  a_config :: kconfig

text \<open>
  \<^verbatim>\<open>Producer(**conf)\<close>: the handle keeps its settings and the calls made on it, oldest
  first, each \<^verbatim>\<open>produce(topic, payload)\<close> with its two arguments.
\<close>

datatype producer_call = Produce pyval "byte list" | Flush

record producer_handle =
  p_config :: kconfig
  p_calls :: "producer_call list"

text \<open>\<^verbatim>\<open>Consumer(**conf)\<close>: the handle keeps its settings and the argument of \<^verbatim>\<open>subscribe\<close>.\<close>

record consumer_handle =
  c_config :: kconfig
  c_subscription :: "pyval option"

text \<open>
  A message returned by \<^verbatim>\<open>consumer.poll\<close>, read through its accessors \<^verbatim>\<open>topic()\<close>,
  \<^verbatim>\<open>value()\<close>, \<^verbatim>\<open>partition()\<close>, \<^verbatim>\<open>offset()\<close>, \<^verbatim>\<open>key()\<close> and \<^verbatim>\<open>error()\<close>.
\<close>

record kafka_message =
  msg_topic :: string
  msg_value :: "byte list option"
  msg_partition :: int
  msg_offset :: int
  msg_key :: "byte list option"
  msg_error :: "kafka_error option"

text \<open>One call of \<^verbatim>\<open>consumer.poll(timeout=0.5)\<close>: \<^verbatim>\<open>None\<close>, a message, or a raise.\<close>

datatype poll_result = PollNone | PollMsg kafka_message | PollRaises exn

text \<open>
  What the world outside the module does. \<open>py_debug\<close> is the interpreter's
  \<^verbatim>\<open>__debug__\<close>: true unless Python runs with \<^verbatim>\<open>-O\<close> or \<^verbatim>\<open>PYTHONOPTIMIZE\<close>, which
  compile every \<^verbatim>\<open>assert\<close> away. \<open>conf_get\<close> is \<^verbatim>\<open>Conf.get\<close> of
  \<^verbatim>\<open>cortx.utils.schema\<close>: it raises, returns \<^verbatim>\<open>None\<close>, or returns the broker section, a
  dict from names to lists of strings. The other fields say which client calls raise
  (\<open>None\<close>: the call returns) and which results the polls of a consumer deliver, in order.
\<close>

record kafka_env =
  py_debug :: bool
  conf_get :: "string \<Rightarrow> string \<Rightarrow> exn + (string \<rightharpoonup> string list) option"
  admin_client_raises :: "kconfig \<Rightarrow> exn option"
  producer_raises :: "kconfig \<Rightarrow> exn option"
  consumer_raises :: "kconfig \<Rightarrow> exn option"
  subscribe_raises :: "consumer_handle \<Rightarrow> pyval \<Rightarrow> exn option"
  produce_raises :: "producer_handle \<Rightarrow> pyval \<Rightarrow> byte list \<Rightarrow> exn option"
  flush_raises :: "producer_handle \<Rightarrow> exn option"
  poll_results :: "consumer_handle \<Rightarrow> poll_result list"

section \<open>KafkaMessageBroker\<close>

text \<open>The instance attributes of a \<^verbatim>\<open>KafkaMessageBroker\<close>; \<open>None\<close> is Python's \<^verbatim>\<open>None\<close>.\<close>

record adapter =
  config :: kconfig
  message_type :: pyval
  producer :: "producer_handle option"
  consumer :: "consumer_handle option"
  admin :: admin_client

text \<open>The class attribute \<^verbatim>\<open>name = 'kafka'\<close>.\<close>

definition KafkaMessageBroker_name :: string where
  "KafkaMessageBroker_name = ''kafka''"

text \<open>\<^verbatim>\<open>','.join(xs)\<close>.\<close>

fun join :: "string \<Rightarrow> string list \<Rightarrow> string" where
  "join sep [] = []"
| "join sep [x] = x"
| "join sep (x # y # ys) = x @ sep @ join sep (y # ys)"

text \<open>
  \<^verbatim>\<open>KafkaMessageBroker.__init__(self, config)\<close>, with \<^verbatim>\<open>config\<close> the configuration store
  of the environment. Subscripting \<^verbatim>\<open>None\<close> raises \<^verbatim>\<open>TypeError\<close>, a missing key
  \<^verbatim>\<open>KeyError\<close>; \<^verbatim>\<open>str(server)\<close> of a string is the string.
\<close>

definition KafkaMessageBroker_init :: "kafka_env \<Rightarrow> exn + adapter" where
  "KafkaMessageBroker_init env =
     (case conf_get env ''global'' ''message_broker'' of
        Inl e \<Rightarrow> Inl e
      | Inr None \<Rightarrow> Inl (TypeError (sq @ ''NoneType'' @ sq @ '' object is not subscriptable''))
      | Inr (Some section) \<Rightarrow>
          (case section ''servers'' of
             None \<Rightarrow> Inl (KeyError ''servers'')
           | Some srv \<Rightarrow>
               let servers = join '','' srv;
                   cfg = [''bootstrap.servers'' \<mapsto> PStr servers]
               in (case admin_client_raises env cfg of
                     Some e \<Rightarrow> Inl e
                   | None \<Rightarrow>
                       Inr \<lparr>config = cfg, message_type = PNone, producer = None,
                            consumer = None, admin = \<lparr>a_config = cfg\<rparr>\<rparr>)))"

text \<open>
  The body of the \<^verbatim>\<open>try\<close> in \<^verbatim>\<open>__call__(self, client, **client_config)\<close>. The adapter
  comes back as the statements before a raise have left it. The \<^verbatim>\<open>assert\<close> of the last
  branch, whose condition is false there, raises when \<^verbatim>\<open>__debug__\<close> holds and is no
  statement at all otherwise.
\<close>

definition call_body ::
  "kafka_env \<Rightarrow> string \<Rightarrow> (string \<rightharpoonup> pyval) \<Rightarrow> adapter \<Rightarrow> adapter \<times> exn option" where
  "call_body env client client_config self =
     (case client_config ''message_type'' of
        None \<Rightarrow> (self, Some (KeyError ''message_type''))
      | Some mt \<Rightarrow>
     let s1 = self\<lparr>message_type := mt\<rparr> in
     (case client_config ''client_id'' of
        None \<Rightarrow> (s1, Some (KeyError ''client_id''))
      | Some cid \<Rightarrow>
     let s2 = (if truthy cid then s1\<lparr>config := (config s1)(''client.id'' \<mapsto> cid)\<rparr> else s1) in
     if client = ''PRODUCER'' then
       (case producer_raises env (config s2) of
          Some e \<Rightarrow> (s2, Some e)
        | None \<Rightarrow> (s2\<lparr>producer := Some \<lparr>p_config = config s2, p_calls = []\<rparr>\<rparr>, None))
     else if client = ''CONSUMER'' then
       let s3 = s2\<lparr>config := (config s2)(''enable.auto.commit'' \<mapsto> PBool False)\<rparr> in
       (case client_config ''offset'' of
          None \<Rightarrow> (s3, Some (KeyError ''offset''))
        | Some off \<Rightarrow>
       let s4 = (if truthy off
                 then s3\<lparr>config := (config s3)(''auto.offset.reset'' \<mapsto> off)\<rparr> else s3) in
       (case client_config ''consumer_group'' of
          None \<Rightarrow> (s4, Some (KeyError ''consumer_group''))
        | Some grp \<Rightarrow>
       let s5 = (if truthy grp
                 then s4\<lparr>config := (config s4)(''group.id'' \<mapsto> grp)\<rparr> else s4) in
       (case consumer_raises env (config s5) of
          Some e \<Rightarrow> (s5, Some e)
        | None \<Rightarrow>
       let c = \<lparr>c_config = config s5, c_subscription = None\<rparr>;
           s6 = s5\<lparr>consumer := Some c\<rparr> in
       (case subscribe_raises env c (message_type s6) of
          Some e \<Rightarrow> (s6, Some e)
        | None \<Rightarrow>
            (s6\<lparr>consumer := Some (c\<lparr>c_subscription := Some (message_type s6)\<rparr>)\<rparr>, None)))))
     else if py_debug env then (s2, Some AssertionError)
     else (s2, None)))"

text \<open>
  \<^verbatim>\<open>__call__\<close>: the body under \<^verbatim>\<open>except Exception as e: raise MessageBusError(f"Invalid Kafka
  {client} configurations. {e}")\<close>. The result is the adapter after the call and the
  exception raised, if any.
\<close>

definition KafkaMessageBroker_call ::
  "kafka_env \<Rightarrow> string \<Rightarrow> (string \<rightharpoonup> pyval) \<Rightarrow> adapter \<Rightarrow> adapter \<times> exn option" where
  "KafkaMessageBroker_call env client client_config self =
     (case call_body env client client_config self of
        (s, None) \<Rightarrow> (s, None)
      | (s, Some e) \<Rightarrow>
          if is_Exception e
          then (s, Some (MessageBusError
                  (Text (''Invalid Kafka '' @ client @ '' configurations. '' @ str_exn e))))
          else (s, Some e))"

subsection \<open>send\<close>

text \<open>
  \<^verbatim>\<open>bytes(s, 'utf-8')\<close>. A code point of a \<^verbatim>\<open>str\<close> is below \<open>0x110000\<close>; the surrogates
  \<open>0xD800\<close> to \<open>0xDFFF\<close> have no encoding, and the codec raises for the first run of them,
  from its first position to the position after its last.
\<close>

definition is_surrogate :: "nat \<Rightarrow> bool" where
  "is_surrogate c = (0xD800 \<le> c \<and> c \<le> 0xDFFF)"

definition utf8_char :: "nat \<Rightarrow> byte list" where
  "utf8_char c =
     (if c < 0x80 then [of_nat c]
      else if c < 0x800 then [of_nat (0xC0 + c div 64), of_nat (0x80 + c mod 64)]
      else if c < 0x10000 then
        [of_nat (0xE0 + c div 4096), of_nat (0x80 + c div 64 mod 64), of_nat (0x80 + c mod 64)]
      else
        [of_nat (0xF0 + c div 262144), of_nat (0x80 + c div 4096 mod 64),
         of_nat (0x80 + c div 64 mod 64), of_nat (0x80 + c mod 64)])"

fun utf8_from :: "nat \<Rightarrow> pystr \<Rightarrow> exn + byte list" where
  "utf8_from i [] = Inr []"
| "utf8_from i (c # cs) =
     (if is_surrogate c
      then Inl (UnicodeEncodeError c i (i + 1 + length (takeWhile is_surrogate cs)))
      else (case utf8_from (Suc i) cs of
              Inl e \<Rightarrow> Inl e
            | Inr bs \<Rightarrow> Inr (utf8_char c @ bs)))"

definition bytes_utf8 :: "pystr \<Rightarrow> exn + byte list" where
  "bytes_utf8 s = utf8_from 0 s"

text \<open>
  The \<^verbatim>\<open>for\<close> loop of \<^verbatim>\<open>send\<close> on a producer handle. Python evaluates the argument
  \<^verbatim>\<open>bytes(each_message, 'utf-8')\<close> before the call, so an encoding error leaves the handle
  as it is; a \<^verbatim>\<open>produce\<close> that raises has been called.
\<close>

fun send_loop ::
  "kafka_env \<Rightarrow> pyval \<Rightarrow> pystr list \<Rightarrow> producer_handle \<Rightarrow> producer_handle \<times> exn option" where
  "send_loop env mt [] p = (p, None)"
| "send_loop env mt (each_message # rest) p =
     (case bytes_utf8 each_message of
        Inl e \<Rightarrow> (p, Some e)
      | Inr payload \<Rightarrow>
          let p' = p\<lparr>p_calls := p_calls p @ [Produce mt payload]\<rparr> in
          (case produce_raises env p mt payload of
             Some e \<Rightarrow> (p', Some e)
           | None \<Rightarrow> send_loop env mt rest p'))"

definition no_attribute :: "string \<Rightarrow> exn" where
  "no_attribute a =
     AttributeError (sq @ ''NoneType'' @ sq @ '' object has no attribute '' @ sq @ a @ sq)"

text \<open>
  \<^verbatim>\<open>send(self, messages)\<close>. With \<^verbatim>\<open>self.producer\<close> still \<^verbatim>\<open>None\<close> the first attribute
  lookup raises: \<^verbatim>\<open>produce\<close> when there is a message, \<^verbatim>\<open>flush\<close> when there is none.
\<close>

definition send :: "kafka_env \<Rightarrow> pystr list \<Rightarrow> adapter \<Rightarrow> adapter \<times> exn option" where
  "send env messages self =
     (case producer self of
        None \<Rightarrow> (self, Some (no_attribute (if messages = [] then ''flush'' else ''produce'')))
      | Some p \<Rightarrow>
          (case send_loop env (message_type self) messages p of
             (p', Some e) \<Rightarrow> (self\<lparr>producer := Some p'\<rparr>, Some e)
           | (p', None) \<Rightarrow>
               (self\<lparr>producer := Some (p'\<lparr>p_calls := p_calls p' @ [Flush]\<rparr>)\<rparr>,
                flush_raises env p')))"

subsection \<open>receive\<close>

text \<open>
  \<^verbatim>\<open>ConsumerRecord(message_type, message, partition, offset, key)\<close>, the namedtuple.
\<close>

datatype ConsumerRecord = ConsumerRecord string "byte list option" int int string

text \<open>
  \<^verbatim>\<open>str(msg.key())\<close>: \<^verbatim>\<open>'None'\<close> for no key, and for \<^verbatim>\<open>bytes\<close> their \<^verbatim>\<open>repr\<close>: quoted with
  \<^verbatim>\<open>'\<close>, or with \<^verbatim>\<open>"\<close> when the bytes hold a \<^verbatim>\<open>'\<close> and no \<^verbatim>\<open>"\<close>; the quote and the
  backslash escaped, tab, newline and carriage return as letters, other bytes outside
  the printable ASCII range as \<^verbatim>\<open>\xhh\<close>.
\<close>

definition repr_byte :: "nat \<Rightarrow> byte \<Rightarrow> string" where
  "repr_byte quote b =
     (let n = unat b in
      if n = quote \<or> n = 0x5C then [CHR 0x5C, char_of n]
      else if n = 9 then [CHR 0x5C, CHR ''t'']
      else if n = 10 then [CHR 0x5C, CHR ''n'']
      else if n = 13 then [CHR 0x5C, CHR ''r'']
      else if n < 32 \<or> 127 \<le> n then [CHR 0x5C, CHR ''x''] @ hex2 n
      else [char_of n])"

definition repr_bytes :: "byte list \<Rightarrow> string" where
  "repr_bytes bs =
     (let quote = (if 0x27 \<in> set bs \<and> 0x22 \<notin> set bs then 0x22 else 0x27 :: nat)
      in ''b'' @ [char_of quote] @ concat (map (repr_byte quote) bs) @ [char_of quote])"

definition str_key :: "byte list option \<Rightarrow> string" where
  "str_key k = (case k of None \<Rightarrow> ''None'' | Some bs \<Rightarrow> repr_bytes bs)"

text \<open>
  The line written for a message,
  \<^verbatim>\<open>'%% %s [%d] at offset %d with key %s:\n' % (topic, partition, offset, str(key))\<close>,
  and the line written at an interrupt, \<^verbatim>\<open>'%% Aborted by user\n'\<close>, which is not
  formatted and keeps both percent signs.
\<close>

definition record_line :: "kafka_message \<Rightarrow> string" where
  "record_line msg =
     ''% '' @ msg_topic msg @ '' ['' @ str_int (msg_partition msg) @ ''] at offset ''
       @ str_int (msg_offset msg) @ '' with key '' @ str_key (msg_key msg) @ '':'' @ [CHR 0x0A]"

definition aborted_line :: string where
  "aborted_line = ''%% Aborted by user'' @ [CHR 0x0A]"

definition consumer_record :: "kafka_message \<Rightarrow> ConsumerRecord" where
  "consumer_record msg =
     ConsumerRecord (msg_topic msg) (msg_value msg) (msg_partition msg) (msg_offset msg)
       (str_key (msg_key msg))"

text \<open>
  What the generator does while its caller keeps advancing it: the writes to
  \<^verbatim>\<open>sys.stderr\<close> and the records yielded, in order, and how it ends. The \<^verbatim>\<open>while True\<close>
  loop has no exit of its own; it runs on the poll results of the environment, and
  \<open>StillPolling\<close> says that it has consumed all of them and is polling on.
\<close>

datatype gen_event = StderrWrite string | Yield ConsumerRecord

datatype gen_end = Raises exn | Returns | StillPolling

fun poll_loop :: "poll_result list \<Rightarrow> gen_event list \<times> gen_end" where
  "poll_loop [] = ([], StillPolling)"
| "poll_loop (PollNone # rest) = poll_loop rest"
| "poll_loop (PollMsg msg # rest) =
     (case msg_error msg of
        Some err \<Rightarrow> ([], Raises (MessageBusError (Err err)))
      | None \<Rightarrow>
          (case poll_loop rest of
             (evs, fin) \<Rightarrow> (StderrWrite (record_line msg) # Yield (consumer_record msg) # evs, fin)))"
| "poll_loop (PollRaises e # rest) =
     (if e = KeyboardInterrupt then ([StderrWrite aborted_line], Returns) else ([], Raises e))"

text \<open>\<^verbatim>\<open>receive_subscribed(self, consumer)\<close>; on \<^verbatim>\<open>None\<close> the lookup of \<^verbatim>\<open>poll\<close> raises.\<close>

definition receive_subscribed ::
  "kafka_env \<Rightarrow> consumer_handle option \<Rightarrow> gen_event list \<times> gen_end" where
  "receive_subscribed env consumer_arg =
     (case consumer_arg of
        None \<Rightarrow> ([], Raises (no_attribute ''poll''))
      | Some c \<Rightarrow> poll_loop (poll_results env c))"

definition receive :: "kafka_env \<Rightarrow> adapter \<Rightarrow> gen_event list \<times> gen_end" where
  "receive env self = receive_subscribed env (consumer self)"


section \<open>MessageBrokerFactory\<close>

text \<open>
  The classes of the module as \<^verbatim>\<open>inspect.getmembers(module, inspect.isclass)\<close> lists
  them, sorted by name: the imported ones, the namedtuple and the three classes defined
  here. Only \<^verbatim>\<open>KafkaMessageBroker\<close> has a \<^verbatim>\<open>name\<close> attribute.
\<close>

datatype pyclass = KafkaMessageBroker_class | Other_class

definition module_classes :: "(string \<times> pyclass) list" where
  "module_classes =
     [(''AdminClient'', Other_class), (''Conf'', Other_class), (''Consumer'', Other_class),
      (''ConsumerRecord'', Other_class), (''KafkaMessageBroker'', KafkaMessageBroker_class),
      (''MessageBroker'', Other_class), (''MessageBrokerFactory'', Other_class),
      (''MessageBusError'', Other_class), (''Producer'', Other_class)]"

text \<open>\<^verbatim>\<open>s.endswith(t)\<close>.\<close>

definition endswith :: "string \<Rightarrow> string \<Rightarrow> bool" where
  "endswith s t = (length t \<le> length s \<and> drop (length s - length t) s = t)"

text \<open>\<^verbatim>\<open>cls.name\<close>, which raises on a class without the attribute.\<close>

fun class_name :: "string \<Rightarrow> pyclass \<Rightarrow> exn + string" where
  "class_name n KafkaMessageBroker_class = Inr KafkaMessageBroker_name"
| "class_name n Other_class =
     Inl (AttributeError (''type object '' @ sq @ n @ sq @ '' has no attribute '' @ sq @ ''name'' @ sq))"

text \<open>
  The \<^verbatim>\<open>for name, cls in brokers\<close> loop; the third argument is \<^verbatim>\<open>self.adapter\<close> so far,
  \<open>None\<close> while the attribute has not been assigned. A match does not leave the loop.
\<close>

fun factory_loop ::
  "kafka_env \<Rightarrow> string \<Rightarrow> (string \<times> pyclass) list \<Rightarrow> adapter option \<Rightarrow> exn + adapter option" where
  "factory_loop env message_broker [] ad = Inr ad"
| "factory_loop env message_broker ((name, cls) # rest) ad =
     (if name \<noteq> ''MessageBroker'' \<and> endswith name ''Broker'' then
        (case class_name name cls of
           Inl e \<Rightarrow> Inl e
         | Inr n \<Rightarrow>
             if message_broker = n then
               (case KafkaMessageBroker_init env of
                  Inl e \<Rightarrow> Inl e
                | Inr a \<Rightarrow> factory_loop env message_broker rest (Some a))
             else factory_loop env message_broker rest ad)
      else factory_loop env message_broker rest ad)"

text \<open>The factory object: its only attribute, \<open>None\<close> when it was never assigned.\<close>

record MessageBrokerFactory =
  adapter :: "adapter option"

text \<open>
  \<^verbatim>\<open>MessageBrokerFactory.__init__(self, message_broker)\<close>: the loop under
  \<^verbatim>\<open>except Exception as e: raise MessageBusError(f"Invalid Broker. {e}")\<close>.
\<close>

definition MessageBrokerFactory_init :: "kafka_env \<Rightarrow> string \<Rightarrow> exn + MessageBrokerFactory" where
  "MessageBrokerFactory_init env message_broker =
     (case factory_loop env message_broker module_classes None of
        Inr ad \<Rightarrow> Inr \<lparr>adapter = ad\<rparr>
      | Inl e \<Rightarrow>
          if is_Exception e
          then Inl (MessageBusError (Text (''Invalid Broker. '' @ str_exn e)))
          else Inl e)"

section \<open>Auxiliary definitions\<close>

text \<open>A producer handle after further \<^verbatim>\<open>produce\<close> calls to a topic, one for each payload.\<close>

definition after_writes :: "producer_handle \<Rightarrow> pyval \<Rightarrow> byte list list \<Rightarrow> producer_handle" where
  "after_writes p mt payloads = p\<lparr>p_calls := p_calls p @ map (Produce mt) payloads\<rparr>"

text \<open>
  The settings with which \<^verbatim>\<open>__call__\<close> creates a consumer, from \<^verbatim>\<open>self.config\<close> and the
  keyword arguments \<^verbatim>\<open>client_id\<close>, \<^verbatim>\<open>offset\<close> and \<^verbatim>\<open>consumer_group\<close>.
\<close>

definition consumer_settings :: "kconfig \<Rightarrow> pyval \<Rightarrow> pyval \<Rightarrow> pyval \<Rightarrow> kconfig" where
  "consumer_settings cfg cid off grp =
     (let cfg1 = (if truthy cid then cfg(''client.id'' \<mapsto> cid) else cfg);
          cfg2 = cfg1(''enable.auto.commit'' \<mapsto> PBool False);
          cfg3 = (if truthy off then cfg2(''auto.offset.reset'' \<mapsto> off) else cfg2)
      in (if truthy grp then cfg3(''group.id'' \<mapsto> grp) else cfg3))"

section \<open>Concrete inputs\<close>

text \<open>
  An environment in which Python runs in its default mode, the configuration store names
  one server and no client call raises; an adapter as \<^verbatim>\<open>KafkaMessageBroker(Conf)\<close> leaves
  it there; and the same environment with Python run under \<^verbatim>\<open>-O\<close>.
\<close>

definition env_ok :: kafka_env where
  "env_ok = \<lparr>py_debug = True,
     conf_get = (\<lambda>i k. Inr (Some [''servers'' \<mapsto> [''localhost:9092'']])),
     admin_client_raises = (\<lambda>_. None), producer_raises = (\<lambda>_. None),
     consumer_raises = (\<lambda>_. None), subscribe_raises = (\<lambda>_ _. None),
     produce_raises = (\<lambda>_ _ _. None), flush_raises = (\<lambda>_. None),
     poll_results = (\<lambda>_. [])\<rparr>"

definition adapter0 :: adapter where
  "adapter0 = \<lparr>config = [''bootstrap.servers'' \<mapsto> PStr ''localhost:9092''],
     message_type = PNone, producer = None, consumer = None,
     admin = \<lparr>a_config = [''bootstrap.servers'' \<mapsto> PStr ''localhost:9092'']\<rparr>\<rparr>"

definition env_optimized :: kafka_env where
  "env_optimized = env_ok\<lparr>py_debug := False\<rparr>"

text \<open>The keyword arguments of a consumer configuration.\<close>

definition consumer_args :: "string \<rightharpoonup> pyval" where
  "consumer_args = [''message_type'' \<mapsto> PList [''orders''], ''client_id'' \<mapsto> PNone,
     ''offset'' \<mapsto> PStr ''earliest'', ''consumer_group'' \<mapsto> PStr ''billing'']"

text \<open>The keyword arguments of a producer configuration, with and without \<^verbatim>\<open>client_id\<close>.\<close>

definition producer_args :: "string \<rightharpoonup> pyval" where
  "producer_args = [''message_type'' \<mapsto> PStr ''orders'', ''client_id'' \<mapsto> PNone]"

definition no_client_id :: "string \<rightharpoonup> pyval" where
  "no_client_id = [''message_type'' \<mapsto> PStr ''orders'']"

text \<open>
  An adapter configured as a producer for the topic \<^verbatim>\<open>orders\<close>, the messages
  \<^verbatim>\<open>["a", "b", "c"]\<close>, and an environment whose producer accepts one message and raises on
  the second \<^verbatim>\<open>produce\<close>.
\<close>

definition adapter_p :: adapter where
  "adapter_p = adapter0\<lparr>message_type := PStr ''orders'',
     producer := Some \<lparr>p_config = config adapter0, p_calls = []\<rparr>\<rparr>"

definition abc :: "pystr list" where
  "abc = [[97], [98], [99]]"

definition env_queue_full :: kafka_env where
  "env_queue_full = env_ok\<lparr>produce_raises :=
     (\<lambda>p t b. if length (p_calls p) = 1 then Some (ClientError ''Local: Queue full'') else None)\<rparr>"

text \<open>
  A message and a message that carries a broker error; a subscribed consumer; and
  environments in which the polls deliver a broker error after a message, an interrupt
  after a message, and nothing at all.
\<close>

definition msg_a :: kafka_message where
  "msg_a = \<lparr>msg_topic = ''orders'', msg_value = Some [97], msg_partition = 0, msg_offset = 17,
     msg_key = None, msg_error = None\<rparr>"

definition msg_err :: kafka_message where
  "msg_err = \<lparr>msg_topic = ''orders'', msg_value = None, msg_partition = 0, msg_offset = 18,
     msg_key = None, msg_error = Some (KafkaError ''UNKNOWN_TOPIC_OR_PART'' 3
       ''Broker: Unknown topic or partition'')\<rparr>"

definition consumer0 :: consumer_handle where
  "consumer0 = \<lparr>c_config = config adapter0, c_subscription = Some (PList [''orders''])\<rparr>"

definition env_error :: kafka_env where
  "env_error = env_ok\<lparr>poll_results := (\<lambda>_. [PollNone, PollMsg msg_a, PollMsg msg_err, PollMsg msg_a])\<rparr>"


definition env_idle :: kafka_env where
  "env_idle = env_ok\<lparr>poll_results := (\<lambda>_. [PollNone, PollNone])\<rparr>"


text \<open>
  Keyword arguments in which \<^verbatim>\<open>client_id\<close> and \<^verbatim>\<open>offset\<close> are \<^verbatim>\<open>None\<close> and
  \<^verbatim>\<open>consumer_group\<close> is the empty string; an adapter that an earlier consumer
  configuration has left with a group and an offset policy; and an environment whose
  \<^verbatim>\<open>Consumer\<close> raises when it is given no \<^verbatim>\<open>group.id\<close>, as the real client does.
\<close>

definition none_args :: "string \<rightharpoonup> pyval" where
  "none_args = [''message_type'' \<mapsto> PList [''orders''], ''client_id'' \<mapsto> PNone,
     ''offset'' \<mapsto> PNone, ''consumer_group'' \<mapsto> PStr [] ]"

definition adapter_reused :: adapter where
  "adapter_reused = adapter0\<lparr>config := [''bootstrap.servers'' \<mapsto> PStr ''localhost:9092'',
     ''client.id'' \<mapsto> PStr ''c1'', ''enable.auto.commit'' \<mapsto> PBool False,
     ''auto.offset.reset'' \<mapsto> PStr ''earliest'', ''group.id'' \<mapsto> PStr ''billing'']\<rparr>"

definition env_needs_group :: kafka_env where
  "env_needs_group = env_ok\<lparr>consumer_raises :=
     (\<lambda>cfg. if cfg ''group.id'' = None then Some (ClientError ''group.id must be set'') else None)\<rparr>"

text \<open>
  An environment whose producer raises in \<^verbatim>\<open>flush\<close>, and a list of messages whose second
  is a lone surrogate, which utf-8 cannot encode.
\<close>

definition env_flush_fails :: kafka_env where
  "env_flush_fails = env_ok\<lparr>flush_raises := (\<lambda>_. Some (ClientError ''Local: Timed out''))\<rparr>"

definition with_surrogate :: "pystr list" where
  "with_surrogate = [[97], [0xD800], [99]]"

section \<open>Role configuration\<close>

lemma call_fst:
  "fst (KafkaMessageBroker_call env client cc self) = fst (call_body env client cc self)"
  by (cases "call_body env client cc self")
     (auto simp: KafkaMessageBroker_call_def split: option.splits)

lemma call_snd:
  "snd (KafkaMessageBroker_call env client cc self) =
     (case snd (call_body env client cc self) of
        None \<Rightarrow> None
      | Some e \<Rightarrow>
          if is_Exception e
          then Some (MessageBusError
                 (Text (''Invalid Kafka '' @ client @ '' configurations. '' @ str_exn e)))
          else Some e)"
  by (cases "call_body env client cc self")
     (auto simp: KafkaMessageBroker_call_def split: option.splits)

lemma call_snd_None:
  "snd (KafkaMessageBroker_call env client cc self) = None
     \<longleftrightarrow> snd (call_body env client cc self) = None"
  by (simp add: call_snd split: option.splits)

lemma call_body_invalid_role:
  assumes "client \<noteq> ''PRODUCER''" and "client \<noteq> ''CONSUMER''"
  shows "producer (fst (call_body env client cc self)) = producer self"
    and "consumer (fst (call_body env client cc self)) = consumer self"
    and "cc ''message_type'' = None \<Longrightarrow>
           snd (call_body env client cc self) = Some (KeyError ''message_type'')"
    and "cc ''message_type'' \<noteq> None \<Longrightarrow> cc ''client_id'' = None \<Longrightarrow>
           snd (call_body env client cc self) = Some (KeyError ''client_id'')"
    and "cc ''message_type'' \<noteq> None \<Longrightarrow> cc ''client_id'' \<noteq> None \<Longrightarrow>
           snd (call_body env client cc self) = (if py_debug env then Some AssertionError else None)"
  using assms by (auto simp: call_body_def Let_def split: option.splits)

text \<open>
  C10, amended. For a role other than \<^verbatim>\<open>'PRODUCER'\<close> and \<^verbatim>\<open>'CONSUMER'\<close> the call leaves the
  producer and the consumer handle as they were and never lets an \<^verbatim>\<open>AssertionError\<close>
  out. Without the keyword \<^verbatim>\<open>message_type\<close>, or else without \<^verbatim>\<open>client_id\<close>, it raises a
  \<^verbatim>\<open>MessageBusError\<close> that wraps the \<^verbatim>\<open>KeyError\<close>. With both keywords it reaches the
  \<^verbatim>\<open>assert\<close>: when assertions are enabled (\<^verbatim>\<open>__debug__\<close>, the interpreter's default) the
  failed assertion is wrapped in a \<^verbatim>\<open>MessageBusError\<close>, and when they are disabled
  (\<^verbatim>\<open>-O\<close>) the call returns normally. So with assertions enabled the call always raises
  a \<^verbatim>\<open>MessageBusError\<close>.
\<close>

theorem invalid_role_raises:
  assumes "client \<noteq> ''PRODUCER''" and "client \<noteq> ''CONSUMER''"
  shows "producer (fst (KafkaMessageBroker_call env client cc self)) = producer self
       \<and> consumer (fst (KafkaMessageBroker_call env client cc self)) = consumer self
       \<and> (cc ''message_type'' = None \<longrightarrow>
            snd (KafkaMessageBroker_call env client cc self) =
              Some (MessageBusError (Text (''Invalid Kafka '' @ client @ '' configurations. ''
                      @ sq @ ''message_type'' @ sq))))
       \<and> (cc ''message_type'' \<noteq> None \<and> cc ''client_id'' = None \<longrightarrow>
            snd (KafkaMessageBroker_call env client cc self) =
              Some (MessageBusError (Text (''Invalid Kafka '' @ client @ '' configurations. ''
                      @ sq @ ''client_id'' @ sq))))
       \<and> (cc ''message_type'' \<noteq> None \<and> cc ''client_id'' \<noteq> None \<longrightarrow>
            snd (KafkaMessageBroker_call env client cc self) =
              (if py_debug env
               then Some (MessageBusError (Text (''Invalid Kafka '' @ client @ '' configurations. '')))
               else None))
       \<and> (py_debug env \<longrightarrow>
            (\<exists>text. snd (KafkaMessageBroker_call env client cc self)
                      = Some (MessageBusError (Text text))))
       \<and> snd (KafkaMessageBroker_call env client cc self) \<noteq> Some AssertionError"
proof -
  note b = call_body_invalid_role [OF assms, where env = env and cc = cc and self = self]
  have 1: "cc ''message_type'' = None \<longrightarrow>
            snd (KafkaMessageBroker_call env client cc self) =
              Some (MessageBusError (Text (''Invalid Kafka '' @ client @ '' configurations. ''
                      @ sq @ ''message_type'' @ sq)))"
    using b(3) by (simp add: call_snd)
  have 2: "cc ''message_type'' \<noteq> None \<and> cc ''client_id'' = None \<longrightarrow>
            snd (KafkaMessageBroker_call env client cc self) =
              Some (MessageBusError (Text (''Invalid Kafka '' @ client @ '' configurations. ''
                      @ sq @ ''client_id'' @ sq)))"
    using b(4) by (simp add: call_snd)
  have 3: "cc ''message_type'' \<noteq> None \<and> cc ''client_id'' \<noteq> None \<longrightarrow>
            snd (KafkaMessageBroker_call env client cc self) =
              (if py_debug env
               then Some (MessageBusError (Text (''Invalid Kafka '' @ client @ '' configurations. '')))
               else None)"
    using b(5) by (simp add: call_snd)
  have 4: "py_debug env \<longrightarrow>
            (\<exists>text. snd (KafkaMessageBroker_call env client cc self)
                      = Some (MessageBusError (Text text)))"
    using 1 2 3 by (cases "cc ''message_type'' = None"; cases "cc ''client_id'' = None") simp_all
  have 5: "snd (KafkaMessageBroker_call env client cc self) \<noteq> Some AssertionError"
    using 1 2 3 by (cases "cc ''message_type'' = None"; cases "cc ''client_id'' = None") simp_all
  from b(1,2) 1 2 3 4 5 show ?thesis
    by (simp only: call_fst simp_thms)
qed

theorem invalid_role_raises_witness:
  "''ADMIN'' \<noteq> ''PRODUCER'' \<and> ''ADMIN'' \<noteq> ''CONSUMER''
   \<and> producer (fst (KafkaMessageBroker_call env_ok ''ADMIN'' consumer_args adapter0)) = None
   \<and> consumer (fst (KafkaMessageBroker_call env_ok ''ADMIN'' consumer_args adapter0)) = None
   \<and> consumer_args ''message_type'' \<noteq> None \<and> consumer_args ''client_id'' \<noteq> None
   \<and> py_debug env_ok
   \<and> snd (KafkaMessageBroker_call env_ok ''ADMIN'' consumer_args adapter0) =
        Some (MessageBusError (Text ''Invalid Kafka ADMIN configurations. ''))
   \<and> no_client_id ''message_type'' \<noteq> None \<and> no_client_id ''client_id'' = None
   \<and> snd (KafkaMessageBroker_call env_ok ''ADMIN'' no_client_id adapter0) =
        Some (MessageBusError (Text (''Invalid Kafka ADMIN configurations. '' @ sq @ ''client_id'' @ sq)))"
  using invalid_role_raises [of "''ADMIN''" env_ok consumer_args adapter0]
    invalid_role_raises [of "''ADMIN''" env_ok no_client_id adapter0]
  by (simp add: consumer_args_def no_client_id_def adapter0_def env_ok_def)

text \<open>
  C10, as stated, fails: under \<^verbatim>\<open>-O\<close> the \<^verbatim>\<open>assert\<close> is compiled away, and a call with the
  role \<^verbatim>\<open>'ADMIN'\<close> returns without raising.
\<close>

theorem invalid_role_optimized_counterexample:
  "''ADMIN'' \<noteq> ''PRODUCER'' \<and> ''ADMIN'' \<noteq> ''CONSUMER''
   \<and> snd (KafkaMessageBroker_call env_optimized ''ADMIN'' consumer_args adapter0) = None"
  by (simp add: KafkaMessageBroker_call_def call_body_def consumer_args_def env_optimized_def
      env_ok_def)

lemma call_body_consumer:
  assumes "cc ''message_type'' = Some mt" and "cc ''client_id'' = Some cid"
    and "cc ''offset'' = Some off" and "cc ''consumer_group'' = Some grp"
  shows "call_body env ''CONSUMER'' cc self =
     (let cfg4 = consumer_settings (config self) cid off grp;
          c = \<lparr>c_config = cfg4, c_subscription = None\<rparr>
      in case consumer_raises env cfg4 of
        Some e \<Rightarrow> (self\<lparr>message_type := mt, config := cfg4\<rparr>, Some e)
      | None \<Rightarrow>
          (case subscribe_raises env c mt of
             Some e \<Rightarrow> (self\<lparr>message_type := mt, config := cfg4, consumer := Some c\<rparr>, Some e)
           | None \<Rightarrow> (self\<lparr>message_type := mt, config := cfg4,
                         consumer := Some (c\<lparr>c_subscription := Some mt\<rparr>)\<rparr>, None)))"
proof -
  have ne: "''CONSUMER'' \<noteq> ''PRODUCER''" by simp
  show ?thesis
    unfolding call_body_def consumer_settings_def Let_def assms option.case if_not_P [OF ne] if_True
    by (cases "truthy cid"; cases "truthy off"; cases "truthy grp")
       (simp_all split: option.splits)
qed

lemma consumer_settings_lookup:
  "consumer_settings cfg cid off grp ''enable.auto.commit'' = Some (PBool False)"
  "truthy off \<Longrightarrow> consumer_settings cfg cid off grp ''auto.offset.reset'' = Some off"
  "truthy grp \<Longrightarrow> consumer_settings cfg cid off grp ''group.id'' = Some grp"
  by (simp_all add: consumer_settings_def Let_def)

lemma call_body_consumer_keys:
  assumes "snd (call_body env ''CONSUMER'' cc self) = None"
  shows "\<exists>mt cid off grp. cc ''message_type'' = Some mt \<and> cc ''client_id'' = Some cid
           \<and> cc ''offset'' = Some off \<and> cc ''consumer_group'' = Some grp"
proof -
  obtain mt where mt: "cc ''message_type'' = Some mt"
    using assms by (cases "cc ''message_type''") (simp_all add: call_body_def)
  obtain cid where cid: "cc ''client_id'' = Some cid"
    using assms mt by (cases "cc ''client_id''") (simp_all add: call_body_def Let_def)
  obtain off where off: "cc ''offset'' = Some off"
    using assms mt cid by (cases "cc ''offset''") (simp_all add: call_body_def Let_def)
  obtain grp where grp: "cc ''consumer_group'' = Some grp"
    using assms mt cid off by (cases "cc ''consumer_group''") (simp_all add: call_body_def Let_def)
  from mt cid off grp show ?thesis by blast
qed

lemma call_body_consumer_ok:
  assumes "snd (call_body env ''CONSUMER'' cc self) = None"
  shows "\<exists>mt cid off grp. cc ''message_type'' = Some mt \<and> cc ''client_id'' = Some cid
           \<and> cc ''offset'' = Some off \<and> cc ''consumer_group'' = Some grp
           \<and> fst (call_body env ''CONSUMER'' cc self) =
               self\<lparr>message_type := mt, config := consumer_settings (config self) cid off grp,
                    consumer := Some \<lparr>c_config = consumer_settings (config self) cid off grp,
                                      c_subscription = Some mt\<rparr>\<rparr>"
proof -
  obtain mt cid off grp where keys: "cc ''message_type'' = Some mt" "cc ''client_id'' = Some cid"
      "cc ''offset'' = Some off" "cc ''consumer_group'' = Some grp"
    using call_body_consumer_keys [OF assms] by blast
  have "fst (call_body env ''CONSUMER'' cc self) =
               self\<lparr>message_type := mt, config := consumer_settings (config self) cid off grp,
                    consumer := Some \<lparr>c_config = consumer_settings (config self) cid off grp,
                                      c_subscription = Some mt\<rparr>\<rparr>"
    using assms unfolding call_body_consumer [OF keys] Let_def
    by (simp split: option.splits)
  with keys show ?thesis by blast
qed

text \<open>
  C7. When the \<^verbatim>\<open>'CONSUMER'\<close> call returns, \<^verbatim>\<open>self.config\<close> has \<^verbatim>\<open>enable.auto.commit\<close>
  set to \<^verbatim>\<open>False\<close>, \<^verbatim>\<open>auto.offset.reset\<close> set to the \<^verbatim>\<open>offset\<close> argument when that is
  given (truthy), \<^verbatim>\<open>group.id\<close> set to the \<^verbatim>\<open>consumer_group\<close> argument when that is given,
  and the consumer handle was created with these settings and subscribed to the
  \<^verbatim>\<open>message_type\<close> argument.
\<close>

theorem consumer_configuration:
  assumes "snd (KafkaMessageBroker_call env ''CONSUMER'' client_config self) = None"
  shows "config (fst (KafkaMessageBroker_call env ''CONSUMER'' client_config self)) ''enable.auto.commit''
           = Some (PBool False)
       \<and> (\<forall>off. client_config ''offset'' = Some off \<and> truthy off \<longrightarrow>
            config (fst (KafkaMessageBroker_call env ''CONSUMER'' client_config self)) ''auto.offset.reset''
              = Some off)
       \<and> (\<forall>grp. client_config ''consumer_group'' = Some grp \<and> truthy grp \<longrightarrow>
            config (fst (KafkaMessageBroker_call env ''CONSUMER'' client_config self)) ''group.id''
              = Some grp)
       \<and> (\<exists>c topics. consumer (fst (KafkaMessageBroker_call env ''CONSUMER'' client_config self)) = Some c
            \<and> c_config c = config (fst (KafkaMessageBroker_call env ''CONSUMER'' client_config self))
            \<and> client_config ''message_type'' = Some topics \<and> c_subscription c = Some topics)"
proof -
  have "snd (call_body env ''CONSUMER'' client_config self) = None"
    using assms by (simp add: call_snd split: option.splits if_splits)
  from call_body_consumer_ok [OF this] show ?thesis
    by (auto simp: call_fst consumer_settings_lookup)
qed

theorem consumer_configuration_witness:
  "snd (KafkaMessageBroker_call env_ok ''CONSUMER'' consumer_args adapter0) = None
   \<and> config (fst (KafkaMessageBroker_call env_ok ''CONSUMER'' consumer_args adapter0))
        ''enable.auto.commit'' = Some (PBool False)
   \<and> config (fst (KafkaMessageBroker_call env_ok ''CONSUMER'' consumer_args adapter0))
        ''auto.offset.reset'' = Some (PStr ''earliest'')
   \<and> config (fst (KafkaMessageBroker_call env_ok ''CONSUMER'' consumer_args adapter0))
        ''group.id'' = Some (PStr ''billing'')"
proof -
  have h: "snd (KafkaMessageBroker_call env_ok ''CONSUMER'' consumer_args adapter0) = None"
    by (simp add: KafkaMessageBroker_call_def call_body_def env_ok_def consumer_args_def)
  show ?thesis
    using h consumer_configuration [OF h]
    by (simp add: consumer_args_def)
qed

lemma call_body_admin: "admin (fst (call_body env client client_config self)) = admin self"
proof (cases "client_config ''message_type''")
  case None
  then show ?thesis by (simp add: call_body_def)
next
  case mt: (Some mt)
  show ?thesis
  proof (cases "client_config ''client_id''")
    case None
    with mt show ?thesis by (simp add: call_body_def Let_def)
  next
    case cid: (Some cid)
    show ?thesis
    proof (cases "client = ''PRODUCER''")
      case True
      with mt cid show ?thesis by (simp add: call_body_def Let_def split: option.splits)
    next
      case np: False
      show ?thesis
      proof (cases "client = ''CONSUMER''")
        case False
        with mt cid np show ?thesis by (simp add: call_body_def Let_def)
      next
        case True
        show ?thesis
        proof (cases "client_config ''offset''")
          case None
          with mt cid True show ?thesis by (simp add: call_body_def Let_def)
        next
          case off: (Some off)
          show ?thesis
          proof (cases "client_config ''consumer_group''")
            case None
            with mt cid True off show ?thesis by (simp add: call_body_def Let_def)
          next
            case (Some grp)
            show ?thesis
              unfolding True call_body_consumer [OF mt cid off Some] Let_def
              by (simp split: option.splits)
          qed
        qed
      qed
    qed
  qed
qed

lemma send_admin: "admin (fst (send env messages self)) = admin self"
  by (simp add: send_def split: option.splits prod.splits)

lemma init_result:
  "KafkaMessageBroker_init env = Inr a \<longleftrightarrow>
      (\<exists>section srv.
          conf_get env ''global'' ''message_broker'' = Inr (Some section)
        \<and> section ''servers'' = Some srv
        \<and> admin_client_raises env [''bootstrap.servers'' \<mapsto> PStr (join '','' srv)] = None
        \<and> a = \<lparr>config = [''bootstrap.servers'' \<mapsto> PStr (join '','' srv)], message_type = PNone,
                producer = None, consumer = None,
                admin = \<lparr>a_config = [''bootstrap.servers'' \<mapsto> PStr (join '','' srv)]\<rparr>\<rparr>)"
  by (auto simp: KafkaMessageBroker_init_def Let_def split: sum.splits option.splits)

text \<open>
  C9. Construction succeeds exactly when the configuration store has the server list and
  \<^verbatim>\<open>AdminClient\<close> does not raise, whatever role is configured later or never; it makes the
  administrative handle from the bootstrap servers alone and leaves the producer and the
  consumer handle \<^verbatim>\<open>None\<close>. No later call replaces the administrative handle.
\<close>

theorem init_admin_handle:
  "(KafkaMessageBroker_init env = Inr a \<longleftrightarrow>
      (\<exists>section srv.
          conf_get env ''global'' ''message_broker'' = Inr (Some section)
        \<and> section ''servers'' = Some srv
        \<and> admin_client_raises env [''bootstrap.servers'' \<mapsto> PStr (join '','' srv)] = None
        \<and> a = \<lparr>config = [''bootstrap.servers'' \<mapsto> PStr (join '','' srv)], message_type = PNone,
                producer = None, consumer = None,
                admin = \<lparr>a_config = [''bootstrap.servers'' \<mapsto> PStr (join '','' srv)]\<rparr>\<rparr>))
   \<and> admin (fst (KafkaMessageBroker_call env client client_config self)) = admin self
   \<and> admin (fst (send env messages self)) = admin self"
  using init_result [of env a] call_body_admin [of env client client_config self]
    send_admin [of env messages self]
  by (simp only: call_fst simp_thms)

theorem init_admin_handle_witness:
  "KafkaMessageBroker_init env_ok = Inr adapter0 \<and> producer adapter0 = None \<and> consumer adapter0 = None
   \<and> admin (fst (KafkaMessageBroker_call env_ok ''PRODUCER'' producer_args adapter0)) = admin adapter0"
  using init_admin_handle [of env_ok adapter0 "''PRODUCER''" producer_args adapter0 "[]"]
  by (simp add: env_ok_def adapter0_def)

text \<open>
  C8, as stated, fails: a producer configuration without the \<^verbatim>\<open>client_id\<close> keyword
  raises, since \<^verbatim>\<open>client_config['client_id']\<close> is a \<^verbatim>\<open>KeyError\<close>.
\<close>

theorem omitted_client_id_counterexample:
  "snd (KafkaMessageBroker_call env_ok ''PRODUCER'' no_client_id adapter0) =
     Some (MessageBusError (Text (''Invalid Kafka PRODUCER configurations. '' @ sq @ ''client_id'' @ sq)))"
  by (simp add: KafkaMessageBroker_call_def call_body_def no_client_id_def)

lemma call_body_producer:
  assumes "cc ''message_type'' = Some mt" and "cc ''client_id'' = Some cid"
  shows "call_body env ''PRODUCER'' cc self =
     (let cfg1 = (if truthy cid then (config self)(''client.id'' \<mapsto> cid) else config self)
      in case producer_raises env cfg1 of
        Some e \<Rightarrow> (self\<lparr>message_type := mt, config := cfg1\<rparr>, Some e)
      | None \<Rightarrow> (self\<lparr>message_type := mt, config := cfg1,
                    producer := Some \<lparr>p_config = cfg1, p_calls = []\<rparr>\<rparr>, None))"
  unfolding call_body_def Let_def assms option.case if_True
  by (cases "truthy cid") (simp_all split: option.splits)

lemma consumer_settings_keeps:
  "\<not> truthy cid \<Longrightarrow> consumer_settings cfg cid off grp ''client.id'' = cfg ''client.id''"
  "\<not> truthy off \<Longrightarrow> consumer_settings cfg cid off grp ''auto.offset.reset'' = cfg ''auto.offset.reset''"
  "\<not> truthy grp \<Longrightarrow> consumer_settings cfg cid off grp ''group.id'' = cfg ''group.id''"
  by (simp_all add: consumer_settings_def Let_def)

lemma call_body_consumer_config:
  assumes "cc ''message_type'' = Some mt" and "cc ''client_id'' = Some cid"
    and "cc ''offset'' = Some off" and "cc ''consumer_group'' = Some grp"
  shows "config (fst (call_body env ''CONSUMER'' cc self)) = consumer_settings (config self) cid off grp"
    and "snd (call_body env ''CONSUMER'' cc self) = None \<longleftrightarrow>
           consumer_raises env (consumer_settings (config self) cid off grp) = None
         \<and> subscribe_raises env
              \<lparr>c_config = consumer_settings (config self) cid off grp, c_subscription = None\<rparr> mt = None"
  unfolding call_body_consumer [OF assms] Let_def
  by (simp_all split: option.splits)

lemma call_body_producer_config:
  assumes "cc ''message_type'' = Some mt" and "cc ''client_id'' = Some cid"
  shows "config (fst (call_body env ''PRODUCER'' cc self)) =
           (if truthy cid then (config self)(''client.id'' \<mapsto> cid) else config self)"
    and "snd (call_body env ''PRODUCER'' cc self) = None \<longleftrightarrow>
           producer_raises env
             (if truthy cid then (config self)(''client.id'' \<mapsto> cid) else config self) = None"
  unfolding call_body_producer [OF assms] Let_def
  by (simp_all split: option.splits)

text \<open>
  C8, amended. The parameters are optional by value, not by presence. With the keywords
  \<^verbatim>\<open>message_type\<close> and \<^verbatim>\<open>client_id\<close> passed, a producer call writes \<^verbatim>\<open>client.id\<close> when
  \<^verbatim>\<open>client_id\<close> is truthy and otherwise leaves \<^verbatim>\<open>self.config\<close> as it was, reads neither
  \<^verbatim>\<open>offset\<close> nor \<^verbatim>\<open>consumer_group\<close>, and returns exactly when \<^verbatim>\<open>Producer\<close> does not
  raise on the resulting settings. With \<^verbatim>\<open>offset\<close> and \<^verbatim>\<open>consumer_group\<close> passed as well,
  a consumer call leaves the entry \<^verbatim>\<open>client.id\<close>, \<^verbatim>\<open>auto.offset.reset\<close> or \<^verbatim>\<open>group.id\<close> of
  \<^verbatim>\<open>self.config\<close> as it was before the call when the corresponding argument is \<^verbatim>\<open>None\<close>
  or empty, and returns exactly when neither \<^verbatim>\<open>Consumer\<close>, on the resulting settings,
  nor \<^verbatim>\<open>subscribe\<close> raises.
\<close>

theorem role_parameters_optional_by_value:
  assumes "client_config ''message_type'' = Some mt" and "client_config ''client_id'' = Some cid"
  shows "config (fst (KafkaMessageBroker_call env ''PRODUCER'' client_config self)) =
           (if truthy cid then (config self)(''client.id'' \<mapsto> cid) else config self)
       \<and> (snd (KafkaMessageBroker_call env ''PRODUCER'' client_config self) = None \<longleftrightarrow>
            producer_raises env
              (config (fst (KafkaMessageBroker_call env ''PRODUCER'' client_config self))) = None)
       \<and> (\<forall>off grp. client_config ''offset'' = Some off \<and> client_config ''consumer_group'' = Some grp
            \<longrightarrow>
              (\<not> truthy cid \<longrightarrow>
                 config (fst (KafkaMessageBroker_call env ''CONSUMER'' client_config self)) ''client.id''
                   = config self ''client.id'')
            \<and> (\<not> truthy off \<longrightarrow>
                 config (fst (KafkaMessageBroker_call env ''CONSUMER'' client_config self))
                   ''auto.offset.reset'' = config self ''auto.offset.reset'')
            \<and> (\<not> truthy grp \<longrightarrow>
                 config (fst (KafkaMessageBroker_call env ''CONSUMER'' client_config self)) ''group.id''
                   = config self ''group.id'')
            \<and> (snd (KafkaMessageBroker_call env ''CONSUMER'' client_config self) = None \<longleftrightarrow>
                 consumer_raises env
                   (config (fst (KafkaMessageBroker_call env ''CONSUMER'' client_config self))) = None
               \<and> subscribe_raises env
                   \<lparr>c_config = config (fst (KafkaMessageBroker_call env ''CONSUMER'' client_config self)),
                    c_subscription = None\<rparr> mt = None))"
proof -
  note p = call_body_producer_config [OF assms, where env = env and self = self]
  have 1: "config (fst (KafkaMessageBroker_call env ''PRODUCER'' client_config self)) =
           (if truthy cid then (config self)(''client.id'' \<mapsto> cid) else config self)"
    by (simp only: call_fst p(1))
  have 2: "snd (KafkaMessageBroker_call env ''PRODUCER'' client_config self) = None \<longleftrightarrow>
            producer_raises env
              (config (fst (KafkaMessageBroker_call env ''PRODUCER'' client_config self))) = None"
    by (simp only: call_fst call_snd_None p)
  have 3: "\<forall>off grp. client_config ''offset'' = Some off \<and> client_config ''consumer_group'' = Some grp
            \<longrightarrow>
              (\<not> truthy cid \<longrightarrow>
                 config (fst (KafkaMessageBroker_call env ''CONSUMER'' client_config self)) ''client.id''
                   = config self ''client.id'')
            \<and> (\<not> truthy off \<longrightarrow>
                 config (fst (KafkaMessageBroker_call env ''CONSUMER'' client_config self))
                   ''auto.offset.reset'' = config self ''auto.offset.reset'')
            \<and> (\<not> truthy grp \<longrightarrow>
                 config (fst (KafkaMessageBroker_call env ''CONSUMER'' client_config self)) ''group.id''
                   = config self ''group.id'')
            \<and> (snd (KafkaMessageBroker_call env ''CONSUMER'' client_config self) = None \<longleftrightarrow>
                 consumer_raises env
                   (config (fst (KafkaMessageBroker_call env ''CONSUMER'' client_config self))) = None
               \<and> subscribe_raises env
                   \<lparr>c_config = config (fst (KafkaMessageBroker_call env ''CONSUMER'' client_config self)),
                    c_subscription = None\<rparr> mt = None)"
  proof (intro allI impI, elim conjE)
    fix off grp
    assume k: "client_config ''offset'' = Some off" "client_config ''consumer_group'' = Some grp"
    note c = call_body_consumer_config [OF assms k, where env = env and self = self]
    show "(\<not> truthy cid \<longrightarrow>
                 config (fst (KafkaMessageBroker_call env ''CONSUMER'' client_config self)) ''client.id''
                   = config self ''client.id'')
            \<and> (\<not> truthy off \<longrightarrow>
                 config (fst (KafkaMessageBroker_call env ''CONSUMER'' client_config self))
                   ''auto.offset.reset'' = config self ''auto.offset.reset'')
            \<and> (\<not> truthy grp \<longrightarrow>
                 config (fst (KafkaMessageBroker_call env ''CONSUMER'' client_config self)) ''group.id''
                   = config self ''group.id'')
            \<and> (snd (KafkaMessageBroker_call env ''CONSUMER'' client_config self) = None \<longleftrightarrow>
                 consumer_raises env
                   (config (fst (KafkaMessageBroker_call env ''CONSUMER'' client_config self))) = None
               \<and> subscribe_raises env
                   \<lparr>c_config = config (fst (KafkaMessageBroker_call env ''CONSUMER'' client_config self)),
                    c_subscription = None\<rparr> mt = None)"
      unfolding call_fst call_snd_None c
      by (simp add: consumer_settings_keeps)
  qed
  from 1 2 3 show ?thesis by (simp only: simp_thms)
qed

theorem role_parameters_optional_by_value_witness:
  "none_args ''message_type'' = Some (PList [''orders'']) \<and> none_args ''client_id'' = Some PNone
   \<and> none_args ''offset'' = Some PNone \<and> none_args ''consumer_group'' = Some (PStr [])
   \<and> \<not> truthy PNone \<and> \<not> truthy (PStr [])
   \<and> config (fst (KafkaMessageBroker_call env_ok ''CONSUMER'' none_args adapter0)) ''group.id'' = None
   \<and> config (fst (KafkaMessageBroker_call env_ok ''CONSUMER'' none_args adapter0))
        ''auto.offset.reset'' = None
   \<and> config (fst (KafkaMessageBroker_call env_ok ''CONSUMER'' none_args adapter0)) ''client.id'' = None
   \<and> snd (KafkaMessageBroker_call env_ok ''CONSUMER'' none_args adapter0) = None
   \<and> snd (KafkaMessageBroker_call env_ok ''PRODUCER'' none_args adapter0) = None
   \<and> config (fst (KafkaMessageBroker_call env_ok ''PRODUCER'' none_args adapter0)) = config adapter0
   \<and> config (fst (KafkaMessageBroker_call env_needs_group ''CONSUMER'' none_args adapter_reused))
        ''group.id'' = Some (PStr ''billing'')
   \<and> config (fst (KafkaMessageBroker_call env_needs_group ''CONSUMER'' none_args adapter_reused))
        ''auto.offset.reset'' = Some (PStr ''earliest'')
   \<and> config (fst (KafkaMessageBroker_call env_needs_group ''CONSUMER'' none_args adapter_reused))
        ''client.id'' = Some (PStr ''c1'')
   \<and> snd (KafkaMessageBroker_call env_needs_group ''CONSUMER'' none_args adapter_reused) = None
   \<and> snd (KafkaMessageBroker_call env_needs_group ''CONSUMER'' none_args adapter0) \<noteq> None"
proof -
  have h1: "none_args ''message_type'' = Some (PList [''orders''])"
    and h2: "none_args ''client_id'' = Some PNone"
    and h3: "none_args ''offset'' = Some PNone"
    and h4: "none_args ''consumer_group'' = Some (PStr [])"
    by (simp_all add: none_args_def)
  note t = role_parameters_optional_by_value [OF h1 h2]
  have r: "config adapter_reused ''group.id'' = Some (PStr ''billing'')"
    "config adapter_reused ''auto.offset.reset'' = Some (PStr ''earliest'')"
    "config adapter_reused ''client.id'' = Some (PStr ''c1'')"
    by (simp_all add: adapter_reused_def adapter0_def)
  have f: "config adapter0 ''group.id'' = None"
    "config adapter0 ''auto.offset.reset'' = None"
    "config adapter0 ''client.id'' = None"
    by (simp_all add: adapter0_def)
  have e: "consumer_raises env_ok = (\<lambda>_. None)" "subscribe_raises env_ok = (\<lambda>_ _. None)"
    "producer_raises env_ok = (\<lambda>_. None)"
    "consumer_raises env_needs_group =
       (\<lambda>cfg. if cfg ''group.id'' = None then Some (ClientError ''group.id must be set'') else None)"
    "subscribe_raises env_needs_group = (\<lambda>_ _. None)"
    by (simp_all add: env_ok_def env_needs_group_def)
  show ?thesis
    using h1 h2 h3 h4 t [of env_ok adapter0] t [of env_needs_group adapter_reused]
      t [of env_needs_group adapter0]
    by (simp add: r f e)
qed

section \<open>send\<close>

lemma send_loop_encode_fails:
  "bytes_utf8 m = Inl e \<Longrightarrow> send_loop env mt (m # ms) p = (p, Some e)"
  by simp

lemma send_loop_produce_fails:
  "bytes_utf8 m = Inr b \<Longrightarrow> produce_raises env p mt b = Some e \<Longrightarrow>
     send_loop env mt (m # ms) p = (p\<lparr>p_calls := p_calls p @ [Produce mt b]\<rparr>, Some e)"
  by (simp add: Let_def)

lemma send_loop_continues:
  "bytes_utf8 m = Inr b \<Longrightarrow> produce_raises env p mt b = None \<Longrightarrow>
     send_loop env mt (m # ms) p = send_loop env mt ms (p\<lparr>p_calls := p_calls p @ [Produce mt b]\<rparr>)"
  by (simp add: Let_def)



lemma send_loop_error:
  assumes "snd (send_loop env mt ms p) = Some e"
  shows "(\<exists>m \<in> set ms. bytes_utf8 m = Inl e) \<or> (\<exists>q b. produce_raises env q mt b = Some e)"
  using assms
proof (induction ms arbitrary: p)
  case Nil
  then show ?case by simp
next
  case (Cons m ms)
  show ?case
  proof (cases "bytes_utf8 m")
    case (Inl e')
    with Cons.prems show ?thesis by simp
  next
    case (Inr b)
    show ?thesis
    proof (cases "produce_raises env p mt b")
      case (Some e')
      with Inr Cons.prems have "e' = e" by simp
      with Some show ?thesis by blast
    next
      case None
      with Inr Cons.prems
      have "snd (send_loop env mt ms (p\<lparr>p_calls := p_calls p @ [Produce mt b]\<rparr>)) = Some e"
        by (simp add: Let_def)
      from Cons.IH [OF this] show ?thesis by auto
    qed
  qed
qed

lemma send_producer:
  assumes "producer self = Some p"
  shows "producer (fst (send env messages self)) =
     Some (case snd (send_loop env (message_type self) messages p) of
             Some e \<Rightarrow> fst (send_loop env (message_type self) messages p)
           | None \<Rightarrow> (fst (send_loop env (message_type self) messages p))
                       \<lparr>p_calls := p_calls (fst (send_loop env (message_type self) messages p)) @ [Flush]\<rparr>)"
    and "snd (send env messages self) =
     (case snd (send_loop env (message_type self) messages p) of
        Some e \<Rightarrow> Some e
      | None \<Rightarrow> flush_raises env (fst (send_loop env (message_type self) messages p)))"
  using assms
  by (cases "send_loop env (message_type self) messages p"; simp add: send_def split: option.splits)+



text \<open>
  C3, as stated, fails: \<^verbatim>\<open>send\<close> has no \<^verbatim>\<open>try\<close>, and the error of a failing write reaches
  the caller as the client raised it, not as a \<^verbatim>\<open>MessageBusError\<close>.
\<close>

theorem send_error_unwrapped_counterexample:
  "snd (send env_queue_full abc adapter_p) = Some (ClientError ''Local: Queue full'')
   \<and> \<not> is_MessageBusError (ClientError ''Local: Queue full'')"
  by (simp add: send_def adapter_p_def abc_def env_queue_full_def env_ok_def bytes_utf8_def
      utf8_char_def is_surrogate_def)

lemma send_error_origin:
  assumes "producer self = Some p" and "snd (send env messages self) = Some e"
  shows "(\<exists>m \<in> set messages. bytes_utf8 m = Inl e)
       \<or> (\<exists>q b. produce_raises env q (message_type self) b = Some e)
       \<or> (\<exists>q. flush_raises env q = Some e)"
proof (cases "snd (send_loop env (message_type self) messages p)")
  case None
  with assms show ?thesis by (auto simp: send_producer(2) [OF assms(1)])
next
  case (Some e')
  with assms have "e' = e" by (simp add: send_producer(2) [OF assms(1)])
  with Some send_loop_error show ?thesis by blast
qed

lemma after_writes_Nil: "after_writes p mt [] = p"
  by (simp add: after_writes_def)

lemma after_writes_Cons:
  "after_writes (p\<lparr>p_calls := p_calls p @ [Produce mt b]\<rparr>) mt bs = after_writes p mt (b # bs)"
  by (simp add: after_writes_def)

lemma after_writes_snoc:
  "(after_writes p mt bs)\<lparr>p_calls := p_calls (after_writes p mt bs) @ [Produce mt b]\<rparr>
     = after_writes p mt (bs @ [b])"
  by (simp add: after_writes_def)

lemma send_loop_prefix:
  assumes "map bytes_utf8 pre = map Inr payloads"
    and "\<forall>i < length payloads.
           produce_raises env (after_writes p mt (take i payloads)) mt (payloads ! i) = None"
  shows "send_loop env mt (pre @ rest) p = send_loop env mt rest (after_writes p mt payloads)"
  using assms
proof (induction pre arbitrary: payloads p)
  case Nil
  then show ?case by (simp add: after_writes_Nil)
next
  case (Cons m pre)
  from Cons.prems(1) obtain b bs where pl: "payloads = b # bs"
    by (cases payloads) simp_all
  with Cons.prems(1) have m: "bytes_utf8 m = Inr b" and rest: "map bytes_utf8 pre = map Inr bs"
    by simp_all
  let ?p = "p\<lparr>p_calls := p_calls p @ [Produce mt b]\<rparr>"
  have first: "produce_raises env p mt b = None"
    using Cons.prems(2) [rule_format, of 0] by (simp add: pl after_writes_Nil)
  have later: "\<forall>i < length bs. produce_raises env (after_writes ?p mt (take i bs)) mt (bs ! i) = None"
  proof (intro allI impI)
    fix i assume "i < length bs"
    then have "Suc i < length payloads" by (simp add: pl)
    from Cons.prems(2) [rule_format, OF this]
    show "produce_raises env (after_writes ?p mt (take i bs)) mt (bs ! i) = None"
      by (simp add: pl after_writes_Cons)
  qed
  have "send_loop env mt ((m # pre) @ rest) p = send_loop env mt (pre @ rest) ?p"
    using send_loop_continues [OF m first] by simp
  also have "\<dots> = send_loop env mt rest (after_writes ?p mt bs)"
    by (rule Cons.IH [OF rest later])
  finally show ?case by (simp add: pl after_writes_Cons)
qed

text \<open>
  C3, amended. \<^verbatim>\<open>send\<close> catches nothing and wraps nothing. When the messages before it
  have been encoded and written without a raise, a message whose utf-8 encoding fails
  ends \<^verbatim>\<open>send\<close> with that encoding error and a write that raises ends it with the error
  the client raised, no later write and no flush being made; and when all messages have
  been written, \<^verbatim>\<open>send\<close> ends as \<^verbatim>\<open>flush\<close> does, with the error of \<^verbatim>\<open>flush\<close> if it raises.
\<close>

theorem send_failure_surfaces:
  assumes "producer self = Some p"
    and "messages = pre @ rest"
    and "map bytes_utf8 pre = map Inr payloads"
    and "\<forall>i < length payloads.
           produce_raises env (after_writes p (message_type self) (take i payloads))
             (message_type self) (payloads ! i) = None"
  shows "(\<forall>m tl e. rest = m # tl \<and> bytes_utf8 m = Inl e \<longrightarrow>
            send env messages self =
              (self\<lparr>producer := Some (after_writes p (message_type self) payloads)\<rparr>, Some e))
       \<and> (\<forall>m tl b e. rest = m # tl \<and> bytes_utf8 m = Inr b
              \<and> produce_raises env (after_writes p (message_type self) payloads) (message_type self) b
                  = Some e \<longrightarrow>
            send env messages self =
              (self\<lparr>producer := Some (after_writes p (message_type self) (payloads @ [b]))\<rparr>, Some e))
       \<and> (rest = [] \<longrightarrow>
            send env messages self =
              (self\<lparr>producer := Some ((after_writes p (message_type self) payloads)
                 \<lparr>p_calls := p_calls (after_writes p (message_type self) payloads) @ [Flush]\<rparr>)\<rparr>,
               flush_raises env (after_writes p (message_type self) payloads)))"
proof -
  let ?mt = "message_type self"
  let ?q = "after_writes p ?mt payloads"
  have loop: "send_loop env ?mt messages p = send_loop env ?mt rest ?q"
    unfolding assms(2) by (rule send_loop_prefix [OF assms(3,4)])
  have 1: "\<forall>m tl e. rest = m # tl \<and> bytes_utf8 m = Inl e \<longrightarrow>
            send env messages self = (self\<lparr>producer := Some ?q\<rparr>, Some e)"
    by (auto simp: send_def assms(1) loop send_loop_encode_fails)
  have 2: "\<forall>m tl b e. rest = m # tl \<and> bytes_utf8 m = Inr b
              \<and> produce_raises env ?q ?mt b = Some e \<longrightarrow>
            send env messages self =
              (self\<lparr>producer := Some (after_writes p ?mt (payloads @ [b]))\<rparr>, Some e)"
    by (auto simp: send_def assms(1) loop send_loop_produce_fails after_writes_snoc)
  have 3: "rest = [] \<longrightarrow>
            send env messages self =
              (self\<lparr>producer := Some (?q\<lparr>p_calls := p_calls ?q @ [Flush]\<rparr>)\<rparr>, flush_raises env ?q)"
    by (simp add: send_def assms(1) loop)
  from 1 2 3 show ?thesis by (simp only: simp_thms)
qed

theorem send_failure_surfaces_witness:
  "producer adapter_p = Some \<lparr>p_config = config adapter0, p_calls = []\<rparr>
   \<and> abc = [[97]] @ [[98], [99]] \<and> map bytes_utf8 [[97]] = map Inr [[97]] \<and> bytes_utf8 [98] = Inr [98]
   \<and> snd (send env_queue_full abc adapter_p) = Some (ClientError ''Local: Queue full'')
   \<and> map_option p_calls (producer (fst (send env_queue_full abc adapter_p)))
        = Some [Produce (PStr ''orders'') [97], Produce (PStr ''orders'') [98]]
   \<and> with_surrogate = [[97]] @ [[0xD800], [99]] \<and> bytes_utf8 [0xD800] = Inl (UnicodeEncodeError 0xD800 0 1)
   \<and> snd (send env_ok with_surrogate adapter_p) = Some (UnicodeEncodeError 0xD800 0 1)
   \<and> map_option p_calls (producer (fst (send env_ok with_surrogate adapter_p)))
        = Some [Produce (PStr ''orders'') [97]]
   \<and> abc = [[97], [98], [99]] @ [] \<and> map bytes_utf8 [[97], [98], [99]] = map Inr [[97], [98], [99]]
   \<and> snd (send env_flush_fails abc adapter_p) = Some (ClientError ''Local: Timed out'')
   \<and> map_option p_calls (producer (fst (send env_flush_fails abc adapter_p)))
        = Some [Produce (PStr ''orders'') [97], Produce (PStr ''orders'') [98],
                Produce (PStr ''orders'') [99], Flush]"
proof -
  let ?p = "\<lparr>p_config = config adapter0, p_calls = []\<rparr>"
  have h: "producer adapter_p = Some ?p" and mt: "message_type adapter_p = PStr ''orders''"
    by (simp_all add: adapter_p_def)
  have u: "bytes_utf8 [97] = Inr [97]" "bytes_utf8 [98] = Inr [98]" "bytes_utf8 [99] = Inr [99]"
    "bytes_utf8 [0xD800] = Inl (UnicodeEncodeError 0xD800 0 1)"
    by (simp_all add: bytes_utf8_def utf8_char_def is_surrogate_def)
  have s1: "abc = [[97]] @ [[98], [99]]" and s3: "abc = [[97], [98], [99]] @ []"
    by (simp_all add: abc_def)
  have s2: "with_surrogate = [[97]] @ [[0xD800], [99]]"
    by (simp add: with_surrogate_def)
  have m1: "map bytes_utf8 [[97]] = map Inr [[97]]"
    and m3: "map bytes_utf8 [[97], [98], [99]] = map Inr [[97], [98], [99]]"
    by (simp_all add: u)
  have q1: "\<forall>i < length [[97::byte]].
      produce_raises env_queue_full (after_writes ?p (message_type adapter_p) (take i [[97]]))
        (message_type adapter_p) ([[97]] ! i) = None"
    by (simp add: env_queue_full_def env_ok_def after_writes_def)
  have q2: "\<forall>i < length [[97::byte]].
      produce_raises env_ok (after_writes ?p (message_type adapter_p) (take i [[97]]))
        (message_type adapter_p) ([[97]] ! i) = None"
    by (simp add: env_ok_def)
  have q3: "\<forall>i < length [[97::byte], [98], [99]].
      produce_raises env_flush_fails (after_writes ?p (message_type adapter_p) (take i [[97], [98], [99]]))
        (message_type adapter_p) ([[97], [98], [99]] ! i) = None"
    by (simp add: env_flush_fails_def env_ok_def)
  have f1: "produce_raises env_queue_full (after_writes ?p (message_type adapter_p) [[97]])
              (message_type adapter_p) [98] = Some (ClientError ''Local: Queue full'')"
    by (simp add: env_queue_full_def env_ok_def after_writes_def)
  have f3: "flush_raises env_flush_fails (after_writes ?p (message_type adapter_p) [[97], [98], [99]])
              = Some (ClientError ''Local: Timed out'')"
    by (simp add: env_flush_fails_def env_ok_def)
  note t1 = send_failure_surfaces [OF h s1 m1 q1]
  note t2 = send_failure_surfaces [OF h s2 m1 q2]
  note t3 = send_failure_surfaces [OF h s3 m3 q3]
  show ?thesis
    using h s1 s2 s3 m1 m3 u f1 f3 t1 t2 t3
    by (simp add: mt after_writes_def)
qed

section \<open>receive\<close>

lemma poll_loop_running_prefix:
  assumes "\<forall>r \<in> set pre. r = PollNone \<or> (\<exists>m. r = PollMsg m \<and> msg_error m = None)"
  shows "poll_loop (pre @ rest) = (fst (poll_loop pre) @ fst (poll_loop rest), snd (poll_loop rest))"
  using assms
proof (induction pre)
  case Nil
  show ?case by simp
next
  case (Cons r pre)
  then have IH: "poll_loop (pre @ rest) = (fst (poll_loop pre) @ fst (poll_loop rest), snd (poll_loop rest))"
    by simp
  from Cons.prems have "r = PollNone \<or> (\<exists>m. r = PollMsg m \<and> msg_error m = None)"
    by simp
  then show ?case
  proof
    assume "r = PollNone"
    with IH show ?thesis by simp
  next
    assume "\<exists>m. r = PollMsg m \<and> msg_error m = None"
    then obtain m where m: "r = PollMsg m" "msg_error m = None" by auto
    show ?thesis
      by (cases "poll_loop pre") (simp add: m IH)
  qed
qed

text \<open>
  C4. When the polls before it are empty or deliver messages without error, a poll that
  delivers a message whose \<^verbatim>\<open>error()\<close> is set makes the generator raise
  \<^verbatim>\<open>MessageBusError\<close> with that error; the generator has then written and yielded what the
  earlier polls gave and nothing of what comes after.
\<close>

theorem broker_error_ends_receive:
  assumes "poll_results env c = pre @ PollMsg msg # rest"
    and "\<forall>r \<in> set pre. r = PollNone \<or> (\<exists>m. r = PollMsg m \<and> msg_error m = None)"
    and "msg_error msg = Some err"
  shows "receive_subscribed env (Some c) = (fst (poll_loop pre), Raises (MessageBusError (Err err)))"
  by (simp add: receive_subscribed_def assms(1,3) poll_loop_running_prefix [OF assms(2)])

theorem broker_error_ends_receive_witness:
  "poll_results env_error consumer0 = [PollNone, PollMsg msg_a] @ PollMsg msg_err # [PollMsg msg_a]
   \<and> msg_error msg_err = Some (KafkaError ''UNKNOWN_TOPIC_OR_PART'' 3 ''Broker: Unknown topic or partition'')
   \<and> receive_subscribed env_error (Some consumer0) =
        ([StderrWrite (record_line msg_a), Yield (consumer_record msg_a)],
         Raises (MessageBusError (Err (KafkaError ''UNKNOWN_TOPIC_OR_PART'' 3 ''Broker: Unknown topic or partition''))))"
proof -
  have h1: "poll_results env_error consumer0 = [PollNone, PollMsg msg_a] @ PollMsg msg_err # [PollMsg msg_a]"
    by (simp add: env_error_def)
  have h2: "\<forall>r \<in> set [PollNone, PollMsg msg_a]. r = PollNone \<or> (\<exists>m. r = PollMsg m \<and> msg_error m = None)"
    by (simp add: msg_a_def)
  have h3: "msg_error msg_err = Some (KafkaError ''UNKNOWN_TOPIC_OR_PART'' 3 ''Broker: Unknown topic or partition'')"
    by (simp add: msg_err_def)
  have a: "msg_error msg_a = None"
    by (simp add: msg_a_def)
  show ?thesis
    using h1 h3 broker_error_ends_receive [OF h1 h2 h3]
    by (simp add: a)
qed




lemma poll_loop_filter: "poll_loop (filter (\<lambda>r. r \<noteq> PollNone) rs) = poll_loop rs"
proof (induction rs rule: poll_loop.induct)
  case 1
  show ?case by simp
next
  case (2 rest)
  then show ?case by simp
next
  case (3 msg rest)
  then show ?case by (cases "msg_error msg") simp_all
next
  case (4 e rest)
  show ?case by simp
qed

lemma poll_loop_yields:
  "Yield rec \<in> set (fst (poll_loop rs)) \<Longrightarrow>
     \<exists>m. PollMsg m \<in> set rs \<and> msg_error m = None \<and> rec = consumer_record m"
proof (induction rs rule: poll_loop.induct)
  case 1
  then show ?case by simp
next
  case (2 rest)
  then show ?case by auto
next
  case (3 msg rest)
  show ?case
  proof (cases "msg_error msg")
    case None
    show ?thesis
    proof (cases "rec = consumer_record msg")
      case True
      with None show ?thesis by auto
    next
      case False
      with None "3.prems" have "Yield rec \<in> set (fst (poll_loop rest))"
        by (cases "poll_loop rest") simp
      from "3.IH" [OF None this] show ?thesis by auto
    qed
  next
    case (Some err)
    with "3.prems" show ?thesis by simp
  qed
next
  case (4 e rest)
  then show ?case by (simp split: if_splits)
qed

lemma poll_loop_idle: "\<forall>r \<in> set rs. r = PollNone \<Longrightarrow> poll_loop rs = ([], StillPolling)"
  by (induction rs) auto

text \<open>
  C5. The generator behaves as if the empty polls were not there; every record it yields
  is the record of a polled message without error; and polls that are all empty make it
  neither yield nor raise: it is still polling.
\<close>

theorem empty_polls_absorbed:
  "receive_subscribed env (Some c) = poll_loop (filter (\<lambda>r. r \<noteq> PollNone) (poll_results env c))
   \<and> (\<forall>rec. Yield rec \<in> set (fst (receive_subscribed env (Some c))) \<longrightarrow>
         (\<exists>m. PollMsg m \<in> set (poll_results env c) \<and> msg_error m = None \<and> rec = consumer_record m))
   \<and> ((\<forall>r \<in> set (poll_results env c). r = PollNone) \<longrightarrow>
         receive_subscribed env (Some c) = ([], StillPolling))"
  using poll_loop_yields [of _ "poll_results env c"] poll_loop_idle [of "poll_results env c"]
  by (simp add: receive_subscribed_def poll_loop_filter)

theorem empty_polls_absorbed_witness:
  "Yield (consumer_record msg_a) \<in> set (fst (receive_subscribed env_error (Some consumer0)))
   \<and> PollMsg msg_a \<in> set (poll_results env_error consumer0) \<and> msg_error msg_a = None
   \<and> poll_results env_idle consumer0 = [PollNone, PollNone]
   \<and> receive_subscribed env_idle (Some consumer0) = ([], StillPolling)"
proof -
  have y: "Yield (consumer_record msg_a) \<in> set (fst (receive_subscribed env_error (Some consumer0)))"
    by (simp add: receive_subscribed_def env_error_def msg_a_def msg_err_def)
  have i: "poll_results env_idle consumer0 = [PollNone, PollNone]"
    by (simp add: env_idle_def)
  show ?thesis
    using y i empty_polls_absorbed [of env_error consumer0] empty_polls_absorbed [of env_idle consumer0]
    by (simp add: env_error_def msg_a_def msg_err_def)
qed

section \<open>The factory\<close>

lemma factory_loop_other:
  "message_broker \<noteq> KafkaMessageBroker_name \<Longrightarrow>
     factory_loop env message_broker module_classes None = Inr None"
  by (simp add: module_classes_def endswith_def)

lemma factory_loop_kafka:
  "factory_loop env KafkaMessageBroker_name module_classes None =
     (case KafkaMessageBroker_init env of Inl e \<Rightarrow> Inl e | Inr a \<Rightarrow> Inr (Some a))"
  by (simp add: module_classes_def endswith_def split: sum.splits)

lemma factory_registered:
  "MessageBrokerFactory_init env ''kafka'' = Inr f \<Longrightarrow>
     \<exists>a. adapter f = Some a \<and> KafkaMessageBroker_init env = Inr a"
  using factory_loop_kafka [of env]
  by (auto simp: MessageBrokerFactory_init_def KafkaMessageBroker_name_def split: sum.splits if_splits)

lemma factory_unregistered:
  "message_broker \<noteq> ''kafka'' \<Longrightarrow> MessageBrokerFactory_init env message_broker = Inr \<lparr>adapter = None\<rparr>"
  using factory_loop_other [of message_broker env]
  by (simp add: MessageBrokerFactory_init_def KafkaMessageBroker_name_def)

text \<open>
  C1. For the name of a class of the module, \<^verbatim>\<open>'kafka'\<close>, a factory that is returned
  holds the adapter that \<^verbatim>\<open>KafkaMessageBroker(Conf)\<close> made (\<open>factory_registered\<close>). For a
  name that no class declares, here \<^verbatim>\<open>'rabbitmq'\<close>, the loop finds no match and raises
  nothing: the constructor returns a factory whose \<^verbatim>\<open>adapter\<close> was never assigned.
\<close>

theorem factory_unknown_broker_returns:
  "MessageBrokerFactory_init env ''rabbitmq'' = Inr \<lparr>adapter = None\<rparr>"
  using factory_loop_other [of "''rabbitmq''" env]
  by (simp add: MessageBrokerFactory_init_def KafkaMessageBroker_name_def)

end
